theory Spec2Isabelle
  imports Complex_Main "HOL-Library.AList"
begin

section \<open>Python values used by \<open>systemcheck.py\<close>\<close>

text \<open>
  Python integers are unbounded and are modelled by \<open>int\<close>. A Python float is modelled by
  its exact value: a finite float is a rational number, and the three special values are
  constructors of their own. Arithmetic on finite floats is the exact rational arithmetic;
  the rounding of IEEE 754 is not modelled. For the operations of this program that matters
  little: dividing by the factor 1024 is exact in binary floating point, and the only other
  float operations are one subtraction of two clock readings and one division by their
  difference per network counter.
\<close>

datatype pyfloat = Fin rat | PosInf | NegInf | NaN

fun isnan :: "pyfloat \<Rightarrow> bool" where
  "isnan NaN = True"
| "isnan _ = False"

text \<open>\<open>isinstance(v, float)\<close>: every value of the model's float type is a float.\<close>

definition isinstance_float :: "pyfloat \<Rightarrow> bool" where
  "isinstance_float v = True"

text \<open>Truthiness, as \<open>if x:\<close> tests it, of a string, of a float and of an optional value.\<close>

definition truthy_str :: "string \<Rightarrow> bool" where
  "truthy_str s = (s \<noteq> [])"

fun truthy_float :: "pyfloat \<Rightarrow> bool" where
  "truthy_float (Fin x) = (x \<noteq> 0)"
| "truthy_float _ = True"

fun truthy_opt :: "('a \<Rightarrow> bool) \<Rightarrow> 'a option \<Rightarrow> bool" where
  "truthy_opt t None = False"
| "truthy_opt t (Some v) = t v"

text \<open>What an f-string prints for a value that is a string or \<open>None\<close>.\<close>

fun str_opt :: "string option \<Rightarrow> string" where
  "str_opt None = ''None''"
| "str_opt (Some s) = s"

subsection \<open>Fixed-point formatting (\<open>:.2f\<close>, \<open>:.1f\<close>)\<close>

definition digit_char :: "nat \<Rightarrow> char" where
  "digit_char n = char_of (48 + n)"

fun dec :: "nat \<Rightarrow> string" where
  "dec n = (if n < 10 then [digit_char n] else dec (n div 10) @ [digit_char (n mod 10)])"

declare dec.simps [simp del]

text \<open>Rounding to the nearest integer, a tie going to the even neighbour.\<close>

definition round_half_even :: "rat \<Rightarrow> int" where
  "round_half_even q =
     (let f = \<lfloor>q\<rfloor>; r = q - of_int f
      in if r < 1 / 2 then f
         else if 1 / 2 < r then f + 1
         else if even f then f else f + 1)"

definition zfill :: "nat \<Rightarrow> string \<Rightarrow> string" where
  "zfill w s = replicate (w - length s) (CHR ''0'') @ s"

text \<open>\<open>format_f p x\<close> is \<open>f"{x:.pf}"\<close> for a finite \<open>x\<close>.\<close>

definition format_f :: "nat \<Rightarrow> rat \<Rightarrow> string" where
  "format_f p x =
     (let n = nat (round_half_even (\<bar>x\<bar> * 10 ^ p))
      in (if x < 0 then ''-'' else '''') @ dec (n div 10 ^ p)
         @ (if p = 0 then '''' else ''.'' @ zfill p (dec (n mod 10 ^ p))))"

fun format_float :: "nat \<Rightarrow> pyfloat \<Rightarrow> string" where
  "format_float p (Fin x) = format_f p x"
| "format_float p PosInf = ''inf''"
| "format_float p NegInf = ''-inf''"
| "format_float p NaN = ''nan''"

text \<open>The bytes that follow a temperature in the source's string literals.\<close>

definition degC :: string where
  "degC = [CHR 0xEC, CHR 0xA7, CHR 0xB8, CHR ''C'']"

section \<open>Module state\<close>

record net_io =
  bytes_sent :: int
  bytes_recv :: int

text \<open>
  The module's global variables. \<open>libre_hw_monitor_available\<close> and
  \<open>libre_hw_monitor_error\<close> are bound by the import attempt, \<open>DISKS_TO_MONITOR\<close> by the
  configuration block, \<open>last_net_io\<close> and \<open>last_time_net\<close> by the first sample.
\<close>

record globals =
  libre_hw_monitor_available :: bool
  libre_hw_monitor_error :: "string option"
  DISKS_TO_MONITOR :: "string list"
  last_net_io :: net_io
  last_time_net :: rat

definition UPDATE_INTERVAL :: nat where
  "UPDATE_INTERVAL = 2"

text \<open>
  Execution of the module's top level: \<open>import_exc\<close> is \<open>None\<close> when the import of
  \<open>clr\<close> and of the sensor library succeeds and \<open>Some (str e)\<close> when it raises \<open>e\<close>;
  \<open>os_name\<close> is \<open>os.name\<close>; \<open>io\<close> and \<open>t\<close> are the first counter sample and clock
  reading.
\<close>

definition module_init :: "string option \<Rightarrow> string \<Rightarrow> net_io \<Rightarrow> rat \<Rightarrow> globals" where
  "module_init import_exc os_name io t =
     \<lparr> libre_hw_monitor_available = (import_exc = None),
       libre_hw_monitor_error = import_exc,
       DISKS_TO_MONITOR = (if os_name = ''nt'' then [[CHR ''C'', CHR '':'', CHR 0x5C]] else [''/'']),
       last_net_io = io,
       last_time_net = t \<rparr>"

section \<open>Helper functions\<close>

subsection \<open>\<open>get_size_gb\<close>\<close>

definition UNITS :: "string list" where
  "UNITS = ['''', ''K'', ''M'', ''G'', ''T'', ''P'']"

text \<open>
  The \<open>for\<close> loop of \<open>get_size_gb\<close> over the remaining units; the empty list is the
  statement after the loop, which prints under \<open>P\<close>.
\<close>

fun scale_bytes :: "rat \<Rightarrow> string list \<Rightarrow> rat \<times> string" where
  "scale_bytes bytes_val [] = (bytes_val, ''P'')"
| "scale_bytes bytes_val (unit # units) =
     (if bytes_val < 1024 then (bytes_val, unit) else scale_bytes (bytes_val / 1024) units)"

definition get_size_gb :: "rat \<Rightarrow> string \<Rightarrow> string" where
  "get_size_gb bytes_val suffix =
     (case scale_bytes bytes_val UNITS of (v, unit) \<Rightarrow> format_f 2 v @ unit @ suffix)"




subsection \<open>\<open>get_network_speed\<close>\<close>

text \<open>
  \<open>current_net_io\<close> and \<open>current_time\<close> are what \<open>psutil.net_io_counters()\<close> and
  \<open>time.time()\<close> return in this call. The result is the returned tuple and the globals
  after the call.
\<close>

definition get_network_speed ::
  "net_io \<Rightarrow> rat \<Rightarrow> globals \<Rightarrow> (rat \<times> rat \<times> int \<times> int) \<times> globals" where
  "get_network_speed current_net_io current_time g =
     (let elapsed_time = current_time - last_time_net g
      in if elapsed_time = 0
         then ((0, 0, bytes_sent current_net_io, bytes_recv current_net_io), g)
         else
           let bytes_sent_diff = bytes_sent current_net_io - bytes_sent (last_net_io g);
               bytes_recv_diff = bytes_recv current_net_io - bytes_recv (last_net_io g);
               upload_speed = of_int bytes_sent_diff / elapsed_time;
               download_speed = of_int bytes_recv_diff / elapsed_time
           in ((upload_speed, download_speed,
                bytes_sent current_net_io, bytes_recv current_net_io),
               g\<lparr>last_net_io := current_net_io, last_time_net := current_time\<rparr>))"

subsection \<open>\<open>get_temperatures_lhm\<close>\<close>

datatype sensor_type = Voltage | Clock | Temperature | Load | Fan | Power

record sensor =
  SensorType :: sensor_type
  SensorName :: string
  SensorValue :: "pyfloat option"

text \<open>
  The sensor backend as one call sees it. Every operation inside the \<open>try\<close> block may
  raise: opening the computer, updating a hardware item, reading a sensor, closing. A
  raising operation carries the text of its exception.
\<close>

record hardware_item =
  Update_raises :: "string option"
  HardwareName :: string
  Sensors :: "(string + sensor) list"

record computer =
  Open_raises :: "string option"
  Hardware :: "hardware_item list"
  Close_raises :: "string option"

record temp_entry =
  label :: string
  current :: pyfloat

type_synonym temps = "(string \<times> temp_entry list) list"

text \<open>The inner loop over \<open>hardware_item.Sensors\<close>, appending to \<open>current_group_temps\<close>.\<close>

fun collect_sensors :: "(string + sensor) list \<Rightarrow> temp_entry list \<Rightarrow> string + temp_entry list" where
  "collect_sensors [] current_group_temps = Inr current_group_temps"
| "collect_sensors (Inl e # rest) current_group_temps = Inl e"
| "collect_sensors (Inr s # rest) current_group_temps =
     (if SensorType s = Temperature
      then let temp_value = (case SensorValue s of Some v \<Rightarrow> v | None \<Rightarrow> NaN)
           in collect_sensors rest
                (current_group_temps @ [\<lparr>label = SensorName s, current = temp_value\<rparr>])
      else collect_sensors rest current_group_temps)"

text \<open>The outer loop over \<open>computer.Hardware\<close>; \<open>temps_data\<close> is a dictionary in
  insertion order, and assigning to a key that is present replaces its value in place.\<close>

fun collect_hardware :: "hardware_item list \<Rightarrow> temps \<Rightarrow> string + temps" where
  "collect_hardware [] temps_data = Inr temps_data"
| "collect_hardware (hardware_item # rest) temps_data =
     (case Update_raises hardware_item of
        Some e \<Rightarrow> Inl e
      | None \<Rightarrow>
          (case collect_sensors (Sensors hardware_item) [] of
             Inl e \<Rightarrow> Inl e
           | Inr current_group_temps \<Rightarrow>
               collect_hardware rest
                 (if current_group_temps \<noteq> []
                  then AList.update (HardwareName hardware_item) current_group_temps temps_data
                  else temps_data)))"

definition lhm_try_body :: "computer \<Rightarrow> string + temps" where
  "lhm_try_body c =
     (case Open_raises c of
        Some e \<Rightarrow> Inl e
      | None \<Rightarrow>
          (case collect_hardware (Hardware c) [] of
             Inl e \<Rightarrow> Inl e
           | Inr temps_data \<Rightarrow>
               (case Close_raises c of Some e \<Rightarrow> Inl e | None \<Rightarrow> Inr temps_data)))"

definition get_temperatures_lhm :: "globals \<Rightarrow> computer \<Rightarrow> temps \<times> string option" where
  "get_temperatures_lhm g c =
     (if \<not> libre_hw_monitor_available g
      then ([], Some (''LibreHardwareMonitorLib not loaded. Stored error: ''
                      @ str_opt (libre_hw_monitor_error g)))
      else (case lhm_try_body c of
              Inr temps_data \<Rightarrow> (temps_data, None)
            | Inl e \<Rightarrow> ([], Some (''Error during LibreHardwareMonitor operation: '' @ e))))"

section \<open>The monitoring cycle\<close>

text \<open>
  What a cycle does to the outside world, in order: the lines it prints and the platform
  queries it makes.
\<close>

datatype event =
    Print string
  | Psutil_cpu_percent
  | Psutil_virtual_memory
  | Psutil_swap_memory
  | Psutil_disk_usage string
  | Psutil_net_io_counters
  | Call_get_temperatures_lhm
  | Psutil_sensors_temperatures
  | Clear_screen
  | Sleep

record usage =
  total :: int
  used :: int
  free :: int
  percent :: rat

record svmem = usage +
  available :: int

datatype disk_outcome = Disk_ok usage | Disk_FileNotFoundError | Disk_Exception string

record shwtemp = temp_entry +
  high :: "pyfloat option"
  critical :: "pyfloat option"

datatype sensors_outcome =
    Sensors_AttributeError
  | Sensors_Exception string
  | Sensors_data "(string \<times> shwtemp list) list"

text \<open>What the platform answers to the queries of one cycle.\<close>

record cycle_env =
  now_strftime :: string
  cpu_percent_percpu :: "rat list"
  cpu_percent_all :: rat
  virtual_memory :: svmem
  swap_memory :: usage
  disk_usage :: "string \<Rightarrow> disk_outcome"
  net_io_counters :: net_io
  time_time :: rat
  lhm_computer :: computer
  sensors_temperatures :: sensors_outcome
  os_name :: string

definition size_B :: "int \<Rightarrow> string" where
  "size_B n = get_size_gb (of_int n) ''B''"

definition header_section :: "string \<Rightarrow> event list" where
  "header_section now =
     [Print ''System Performance & Temperature Monitor'',
      Print ''----------------------------------------'',
      Print (''Last updated: '' @ now),
      Print (''Press Ctrl+C to exit.'' @ [CHR 0x0A])]"

definition cpu_section :: "rat list \<Rightarrow> rat \<Rightarrow> event list" where
  "cpu_section cpu_per_core cpu_all =
     [Print ''--- CPU Usage ---'', Psutil_cpu_percent]
     @ (if cpu_per_core \<noteq> []
        then [Print (''  Overall: ''
                     @ format_f 1 (sum_list cpu_per_core / of_nat (length cpu_per_core))
                     @ ''% (avg of cores)'')]
        else [Psutil_cpu_percent, Print (''  Overall: '' @ format_f 1 cpu_all @ ''%'')])
     @ map (\<lambda>(i, core_usage).
              Print (''  Core '' @ dec (i + 1) @ '':   '' @ format_f 1 core_usage @ ''%''))
           (enumerate 0 cpu_per_core)
     @ [Print []]"

definition memory_section :: "svmem \<Rightarrow> usage \<Rightarrow> event list" where
  "memory_section mem swap =
     [Print ''--- Memory Usage (RAM) ---'',
      Psutil_virtual_memory,
      Print (''  Total:     '' @ size_B (total mem)),
      Print (''  Available: '' @ size_B (available mem)),
      Print (''  Used:      '' @ size_B (used mem) @ '' ('' @ format_f 1 (percent mem) @ ''%)''),
      Print (''  Free:      '' @ size_B (free mem)),
      Psutil_swap_memory,
      Print (''  Swap Total: '' @ size_B (total swap)),
      Print (''  Swap Used:  '' @ size_B (used swap) @ '' ('' @ format_f 1 (percent swap) @ ''%)''),
      Print []]"

text \<open>One iteration of the loop over \<open>DISKS_TO_MONITOR\<close>, with its two handlers.\<close>

definition disk_report :: "string \<Rightarrow> disk_outcome \<Rightarrow> event list" where
  "disk_report disk_path outcome =
     (case outcome of
        Disk_ok disk \<Rightarrow>
          [Print (''  Disk ('' @ disk_path @ ''):''),
           Print (''    Total:     '' @ size_B (total disk)),
           Print (''    Used:      '' @ size_B (used disk)
                  @ '' ('' @ format_f 1 (percent disk) @ ''%)''),
           Print (''    Free:      '' @ size_B (free disk))]
      | Disk_FileNotFoundError \<Rightarrow>
          [Print (''  Disk ('' @ disk_path @ ''): Not found or inaccessible.'')]
      | Disk_Exception e \<Rightarrow>
          [Print (''  Disk ('' @ disk_path @ ''): Error - '' @ e)])"

fun disk_loop :: "(string \<Rightarrow> disk_outcome) \<Rightarrow> string list \<Rightarrow> event list" where
  "disk_loop du [] = []"
| "disk_loop du (disk_path # rest) =
     Psutil_disk_usage disk_path # disk_report disk_path (du disk_path) @ disk_loop du rest"

definition disk_section :: "(string \<Rightarrow> disk_outcome) \<Rightarrow> string list \<Rightarrow> event list" where
  "disk_section du disks = Print ''--- Disk Usage ---'' # disk_loop du disks @ [Print []]"

definition network_section :: "net_io \<Rightarrow> rat \<Rightarrow> globals \<Rightarrow> event list \<times> globals" where
  "network_section io t g =
     (case get_network_speed io t g of
        ((upload_speed, download_speed, total_sent, total_recv), g') \<Rightarrow>
          ([Print ''--- Network Activity ---'',
            Psutil_net_io_counters,
            Print (''  Total Sent:      '' @ size_B total_sent),
            Print (''  Total Received:  '' @ size_B total_recv),
            Print (''  Upload Speed:    '' @ get_size_gb upload_speed ''B'' @ ''/s''),
            Print (''  Download Speed:  '' @ get_size_gb download_speed ''B'' @ ''/s''),
            Print []], g'))"

subsection \<open>Temperatures: the primary source\<close>

definition valid_entry :: "temp_entry \<Rightarrow> bool" where
  "valid_entry e = (isinstance_float (current e) \<and> \<not> isnan (current e))"

text \<open>
  The loop over \<open>lhm_temps.items()\<close>; the flag is \<open>data_printed_for_lhm\<close>, and the
  result is what the loop prints and the flag after it.
\<close>

fun render_lhm_groups :: "temps \<Rightarrow> bool \<Rightarrow> event list \<times> bool" where
  "render_lhm_groups [] data_printed_for_lhm = ([], data_printed_for_lhm)"
| "render_lhm_groups ((group_name, entries) # rest) data_printed_for_lhm =
     (if entries = [] then render_lhm_groups rest data_printed_for_lhm
      else
        let valid_entries_in_group = filter valid_entry entries
        in if valid_entries_in_group = [] then render_lhm_groups rest data_printed_for_lhm
           else
             (case render_lhm_groups rest True of
                (out, flag) \<Rightarrow>
                  (Print (''  Sensor Group (LHM - '' @ group_name @ ''):'')
                   # map (\<lambda>entry. Print (''    '' @ label entry @ '': ''
                                          @ format_float 1 (current entry) @ degC))
                         valid_entries_in_group
                   @ out, flag)))"

text \<open>
  The branch on \<open>libre_hw_monitor_available\<close>: the events and the value of
  \<open>lhm_reported_temps\<close> after it.
\<close>

definition lhm_section :: "globals \<Rightarrow> computer \<Rightarrow> event list \<times> bool" where
  "lhm_section g c =
     (if libre_hw_monitor_available g
      then
        (case get_temperatures_lhm g c of
           (lhm_temps, lhm_error_msg) \<Rightarrow>
             let attempt =
                   [Print ''  Attempting to read temperatures using LibreHardwareMonitorLib...'',
                    Call_get_temperatures_lhm]
             in if truthy_opt truthy_str lhm_error_msg
                then (attempt @ [Print (''  LibreHardwareMonitor: Failed. Error: ''
                                        @ str_opt lhm_error_msg)], False)
                else if lhm_temps = [] \<or> \<not> list_ex (\<lambda>(group_name, entries). entries \<noteq> []) lhm_temps
                then (attempt @ [Print ''  LibreHardwareMonitor: No temperature sensors found or no data reported by sensors.''], False)
                else
                  (case render_lhm_groups lhm_temps False of
                     (out, data_printed_for_lhm) \<Rightarrow>
                       if data_printed_for_lhm then (attempt @ out, True)
                       else (attempt @ out @ [Print ''  LibreHardwareMonitor: Sensors might be detected, but no valid temperature values available.''], False)))
      else
        ([Print (''  LibreHardwareMonitorLib not found or failed to load. Error: ''
                 @ str_opt (libre_hw_monitor_error g)),
          Print (''  (For temperature monitoring on Windows, download ''
                 @ [CHR 0x27] @ ''LibreHardwareMonitorLib.dll'' @ [CHR 0x27]
                 @ '' and place it in the script'' @ [CHR 0x27] @ ''s directory).'')],
         False))"

subsection \<open>Temperatures: the fallback source\<close>

text \<open>The loop over the entries of one group; the flag is \<open>psutil_data_found\<close>.\<close>

fun render_psutil_entries :: "shwtemp list \<Rightarrow> bool \<Rightarrow> event list \<times> bool" where
  "render_psutil_entries [] psutil_data_found = ([], psutil_data_found)"
| "render_psutil_entries (entry # rest) psutil_data_found =
     (case render_psutil_entries rest True of
        (out, flag) \<Rightarrow>
          (Print (''    '' @ format_float 1 (current entry) @ degC
                  @ (if truthy_str (label entry) then '' ('' @ label entry @ '')'' else []))
           # (if truthy_opt truthy_float (high entry)
              then [Print (''      High: ''
                           @ (case high entry of Some h \<Rightarrow> format_float 1 h | None \<Rightarrow> [])
                           @ degC)]
              else [])
           @ (if truthy_opt truthy_float (critical entry)
              then [Print (''      Critical: ''
                           @ (case critical entry of Some h \<Rightarrow> format_float 1 h | None \<Rightarrow> [])
                           @ degC)]
              else [])
           @ out, flag))"

fun render_psutil_groups :: "(string \<times> shwtemp list) list \<Rightarrow> bool \<Rightarrow> event list \<times> bool" where
  "render_psutil_groups [] psutil_data_found = ([], psutil_data_found)"
| "render_psutil_groups ((name, entries) # rest) psutil_data_found =
     (if entries = [] then render_psutil_groups rest psutil_data_found
      else
        (case render_psutil_entries entries psutil_data_found of
           (out, flag) \<Rightarrow>
             (case render_psutil_groups rest flag of
                (out', flag') \<Rightarrow>
                  (Print (''  Sensor Group (psutil - '' @ name @ ''):'') # out @ out', flag'))))"

definition psutil_section :: "string \<Rightarrow> sensors_outcome \<Rightarrow> event list" where
  "psutil_section os outcome =
     [Print ([CHR 0x0A] @ ''  Attempting fallback with psutil for temperatures...''),
      Psutil_sensors_temperatures]
     @ (case outcome of
          Sensors_AttributeError \<Rightarrow>
            [Print ''  psutil: psutil.sensors_temperatures() not available on this platform/psutil version.'']
        | Sensors_Exception e \<Rightarrow>
            [Print (''  psutil: Could not retrieve temperatures: '' @ e)]
        | Sensors_data psutil_temps_data \<Rightarrow>
            if psutil_temps_data = []
            then Print ''  psutil: Temperature sensors not found or not supported on this system.''
                 # (if os \<noteq> ''nt''
                    then [Print (''  (On Linux, you might need '' @ [CHR 0x27] @ ''lm-sensors''
                                 @ [CHR 0x27] @ '' installed and configured.)'')]
                    else [])
            else
              (case render_psutil_groups psutil_temps_data False of
                 (out, psutil_data_found) \<Rightarrow>
                   out @ (if \<not> psutil_data_found
                          then [Print ''  psutil: No specific temperature data available from detected sensors (sensors might be present but not reporting values).'']
                          else [])))"

definition temperature_section :: "globals \<Rightarrow> string \<Rightarrow> computer \<Rightarrow> sensors_outcome \<Rightarrow> event list" where
  "temperature_section g os c outcome =
     Print ''--- System Temperatures ---''
     # (case lhm_section g c of
          (out, lhm_reported_temps) \<Rightarrow>
            out @ (if \<not> lhm_reported_temps then psutil_section os outcome else []))
     @ [Print []]"

subsection \<open>\<open>display_system_stats\<close> and the main loop\<close>

definition display_system_stats :: "cycle_env \<Rightarrow> globals \<Rightarrow> event list \<times> globals" where
  "display_system_stats env g =
     (case network_section (net_io_counters env) (time_time env) g of
        (net_out, g') \<Rightarrow>
          (header_section (now_strftime env)
           @ cpu_section (cpu_percent_percpu env) (cpu_percent_all env)
           @ memory_section (virtual_memory env) (swap_memory env)
           @ disk_section (disk_usage env) (DISKS_TO_MONITOR g)
           @ net_out
           @ temperature_section g' (os_name env) (lhm_computer env) (sensors_temperatures env),
           g'))"

text \<open>
  The \<open>while True\<close> loop, run for as many cycles as there are environments: the trace of
  each cycle and the globals after the last one. The loop only ends by an interrupt or an
  uncaught exception, so a finite run is a prefix of it.
\<close>

fun main_loop :: "cycle_env list \<Rightarrow> globals \<Rightarrow> event list list \<times> globals" where
  "main_loop [] g = ([], g)"
| "main_loop (env # envs) g =
     (case display_system_stats env g of
        (out, g') \<Rightarrow>
          (case main_loop envs g' of
             (traces, g'') \<Rightarrow>
               ((Clear_screen # out
                 @ [Print ([CHR 0x0A] @ ''Updating in '' @ dec UPDATE_INTERVAL @ '' seconds...''),
                    Sleep]) # traces, g'')))"

text \<open>The statements of the main block before the loop: the calibrating calls.\<close>

definition main_prologue :: "net_io \<Rightarrow> rat \<Rightarrow> globals \<Rightarrow> globals" where
  "main_prologue io t g = snd (get_network_speed io t g)"

text \<open>Whether a trace shows a group rendered from the primary source.\<close>

fun starts_with :: "string \<Rightarrow> string \<Rightarrow> bool" where
  "starts_with [] s = True"
| "starts_with (c # cs) [] = False"
| "starts_with (c # cs) (d # ds) = (c = d \<and> starts_with cs ds)"

fun is_lhm_render :: "event \<Rightarrow> bool" where
  "is_lhm_render (Print s) = starts_with ''  Sensor Group (LHM - '' s"
| "is_lhm_render _ = False"

text \<open>The platform queries of a trace, in order, and the disk queries among them.\<close>

fun is_print :: "event \<Rightarrow> bool" where
  "is_print (Print s) = True"
| "is_print _ = False"

definition queries :: "event list \<Rightarrow> event list" where
  "queries evs = filter (\<lambda>e. \<not> is_print e) evs"

fun is_disk_query :: "event \<Rightarrow> bool" where
  "is_disk_query (Psutil_disk_usage p) = True"
| "is_disk_query _ = False"

text \<open>Globals and samples used to instantiate the theorems below.\<close>

definition sample_globals :: globals where
  "sample_globals =
     \<lparr> libre_hw_monitor_available = True,
       libre_hw_monitor_error = None,
       DISKS_TO_MONITOR = [''/'', ''/mnt/data'', ''/backup''],
       last_net_io = \<lparr>bytes_sent = 1000, bytes_recv = 2000\<rparr>,
       last_time_net = 0 \<rparr>"

definition sample_io :: net_io where
  "sample_io = \<lparr>bytes_sent = 3000, bytes_recv = 2500\<rparr>"

definition reset_io :: net_io where
  "reset_io = \<lparr>bytes_sent = 400, bytes_recv = 500\<rparr>"

definition null_sensor :: sensor where
  "null_sensor = \<lparr>SensorType = Temperature, SensorName = ''Core 2'', SensorValue = None\<rparr>"

definition cpu_item :: hardware_item where
  "cpu_item =
     \<lparr> Update_raises = None, HardwareName = ''CPU'',
       Sensors =
         [Inr \<lparr>SensorType = Temperature, SensorName = ''Core 1'', SensorValue = Some (Fin (91 / 2))\<rparr>,
          Inr \<lparr>SensorType = Load, SensorName = ''Total'', SensorValue = Some (Fin 3)\<rparr>,
          Inr null_sensor] \<rparr>"

definition failing_computer :: computer where
  "failing_computer =
     \<lparr> Open_raises = None,
       Hardware =
         [cpu_item,
          \<lparr>Update_raises = Some ''device lost'', HardwareName = ''GPU'', Sensors = []\<rparr>],
       Close_raises = None \<rparr>"

definition nan_computer :: computer where
  "nan_computer =
     \<lparr> Open_raises = None,
       Hardware = [\<lparr>Update_raises = None, HardwareName = ''GPU'', Sensors = [Inr null_sensor]\<rparr>],
       Close_raises = None \<rparr>"

definition sample_usage :: usage where
  "sample_usage = \<lparr>total = 500000000000, used = 1234567, free = 3, percent = 1 / 4\<rparr>"

definition sample_env :: cycle_env where
  "sample_env =
     \<lparr> now_strftime = ''2024-01-01 10:00:00'',
       cpu_percent_percpu = [25 / 2, 30],
       cpu_percent_all = 5,
       virtual_memory =
         \<lparr>total = 16000000000, used = 8000000000, free = 100000, percent = 503 / 10,
          available = 7000000000\<rparr>,
       swap_memory = \<lparr>total = 0, used = 0, free = 0, percent = 0\<rparr>,
       disk_usage =
         (\<lambda>p. if p = ''/'' then Disk_ok sample_usage
              else if p = ''/backup'' then Disk_Exception ''[Errno 13] Permission denied''
              else Disk_FileNotFoundError),
       net_io_counters = sample_io,
       time_time = 2,
       lhm_computer = \<lparr>Open_raises = None, Hardware = [cpu_item], Close_raises = None\<rparr>,
       sensors_temperatures =
         Sensors_data
           [(''coretemp'',
             [\<lparr>label = ''Package'', current = Fin 40, high = Some (Fin 80), critical = None\<rparr>])],
       os_name = ''posix'' \<rparr>"

definition nan_env :: cycle_env where
  "nan_env = sample_env\<lparr>lhm_computer := nan_computer\<rparr>"

definition bare_globals :: globals where
  "bare_globals = module_init (Some ''No module named clr'') ''posix'' sample_io 0"

section \<open>The byte-scaling formatter\<close>

text \<open>
  C4. The formatter prints 0 as \<open>0.00B\<close>, 1536 as \<open>1.50KB\<close> and \<open>1024 ** 4\<close> as
  \<open>1.00TB\<close>.
\<close>

theorem get_size_gb_examples:
  "get_size_gb 0 ''B'' = ''0.00B''
   \<and> get_size_gb 1536 ''B'' = ''1.50KB''
   \<and> get_size_gb (1024 ^ 4) ''B'' = ''1.00TB''"
  by code_simp

lemma scale_bytes_UNITS:
  "scale_bytes x UNITS =
    (if x < 1024 then (x, [])
     else if x < 1024 ^ 2 then (x / 1024, ''K'')
     else if x < 1024 ^ 3 then (x / 1024 ^ 2, ''M'')
     else if x < 1024 ^ 4 then (x / 1024 ^ 3, ''G'')
     else if x < 1024 ^ 5 then (x / 1024 ^ 4, ''T'')
     else if x < 1024 ^ 6 then (x / 1024 ^ 5, ''P'')
     else (x / 1024 ^ 6, ''P''))"
  by (simp add: UNITS_def)



lemma format_f_2_examples:
  "format_f 2 1 = ''1.00''" "format_f 2 (3 / 2) = ''1.50''"
  by code_simp+




text \<open>
  From \<open>1024 ^ 6\<close> on, the statement after the loop divides once more than the loop did
  for \<open>P\<close>: one exbibyte is printed as one pebibyte.
\<close>

lemma get_size_gb_exbibyte: "get_size_gb (1024 ^ 6) ''B'' = ''1.00PB''"
  by (simp add: get_size_gb_def scale_bytes_UNITS format_f_2_examples)

section \<open>The network rate calculator\<close>

text \<open>
  C1. From the baseline (sent 1000, received 2000, time 0) and the sample (sent 3000,
  received 2500, time 2) the rates are 1000 and 250 bytes per second; and whenever the
  elapsed time is zero the rates are both zero and the totals are the current counters.
\<close>

theorem get_network_speed_example_and_zero_elapsed:
  "(last_net_io g = \<lparr>bytes_sent = 1000, bytes_recv = 2000\<rparr> \<and> last_time_net g = 0 \<longrightarrow>
      fst (get_network_speed \<lparr>bytes_sent = 3000, bytes_recv = 2500\<rparr> 2 g)
        = (1000, 250, 3000, 2500))
   \<and> (t - last_time_net g = 0 \<longrightarrow>
      fst (get_network_speed io t g) = (0, 0, bytes_sent io, bytes_recv io))"
  by (simp add: get_network_speed_def Let_def)

theorem get_network_speed_example_and_zero_elapsed_witness:
  "last_net_io sample_globals = \<lparr>bytes_sent = 1000, bytes_recv = 2000\<rparr>
   \<and> last_time_net sample_globals = 0
   \<and> fst (get_network_speed \<lparr>bytes_sent = 3000, bytes_recv = 2500\<rparr> 2 sample_globals)
       = (1000, 250, 3000, 2500)
   \<and> 0 - last_time_net sample_globals = 0
   \<and> fst (get_network_speed reset_io 0 sample_globals) = (0, 0, 400, 500)"
  using get_network_speed_example_and_zero_elapsed [of sample_globals 0 reset_io]
  by (simp add: sample_globals_def reset_io_def)

text \<open>
  C5. A call with a non-zero elapsed time leaves the current counters and the current
  clock reading as the stored baseline and changes no other global; hence the rates of the
  next call are the differences to this call's sample, over the time since this call.
\<close>

theorem get_network_speed_overwrites_baseline:
  assumes "t - last_time_net g \<noteq> 0"
  shows "snd (get_network_speed io t g) = g\<lparr>last_net_io := io, last_time_net := t\<rparr>
    \<and> (t' - t \<noteq> 0 \<longrightarrow>
         fst (get_network_speed io' t' (snd (get_network_speed io t g)))
           = (of_int (bytes_sent io' - bytes_sent io) / (t' - t),
              of_int (bytes_recv io' - bytes_recv io) / (t' - t),
              bytes_sent io', bytes_recv io'))"
  using assms by (simp add: get_network_speed_def Let_def)

theorem get_network_speed_overwrites_baseline_witness:
  "2 - last_time_net sample_globals \<noteq> 0
   \<and> snd (get_network_speed sample_io 2 sample_globals)
       = sample_globals\<lparr>last_net_io := sample_io, last_time_net := 2\<rparr>
   \<and> (4::rat) - 2 \<noteq> 0
   \<and> fst (get_network_speed \<lparr>bytes_sent = 3500, bytes_recv = 6500\<rparr> 4
            (snd (get_network_speed sample_io 2 sample_globals)))
       = (250, 2000, 3500, 6500)"
proof -
  have e: "2 - last_time_net sample_globals \<noteq> 0"
    by (simp add: sample_globals_def)
  note step = get_network_speed_overwrites_baseline
    [OF e, of sample_io 4 "\<lparr>bytes_sent = 3500, bytes_recv = 6500\<rparr>"]
  have baseline: "snd (get_network_speed sample_io 2 sample_globals)
      = sample_globals\<lparr>last_net_io := sample_io, last_time_net := 2\<rparr>"
    using step by (rule conjunct1)
  have next_call: "fst (get_network_speed \<lparr>bytes_sent = 3500, bytes_recv = 6500\<rparr> 4
            (snd (get_network_speed sample_io 2 sample_globals))) = (250, 2000, 3500, 6500)"
    using step [THEN conjunct2] by (simp add: sample_io_def)
  show ?thesis
    using e baseline next_call by (intro conjI) simp_all
qed

text \<open>
  C6. Negative differences are not clamped: with a positive elapsed time, a sent (or
  received) counter below the stored one gives the upload (or download) rate
  \<open>(current - last) / elapsed\<close>, which is negative.
\<close>

theorem get_network_speed_no_clamp:
  assumes "0 < t - last_time_net g"
  shows "(bytes_sent io < bytes_sent (last_net_io g) \<longrightarrow>
           fst (fst (get_network_speed io t g))
             = of_int (bytes_sent io - bytes_sent (last_net_io g)) / (t - last_time_net g)
           \<and> fst (fst (get_network_speed io t g)) < 0)
       \<and> (bytes_recv io < bytes_recv (last_net_io g) \<longrightarrow>
           fst (snd (fst (get_network_speed io t g)))
             = of_int (bytes_recv io - bytes_recv (last_net_io g)) / (t - last_time_net g)
           \<and> fst (snd (fst (get_network_speed io t g))) < 0)"
  using assms by (auto simp add: get_network_speed_def Let_def divide_neg_pos)

theorem get_network_speed_no_clamp_witness:
  "0 < 2 - last_time_net sample_globals
   \<and> bytes_sent reset_io < bytes_sent (last_net_io sample_globals)
   \<and> fst (fst (get_network_speed reset_io 2 sample_globals)) = - 300
   \<and> bytes_recv reset_io < bytes_recv (last_net_io sample_globals)
   \<and> fst (snd (fst (get_network_speed reset_io 2 sample_globals))) = - 750"
proof -
  have e: "0 < 2 - last_time_net sample_globals"
    by (simp add: sample_globals_def)
  show ?thesis
    using e get_network_speed_no_clamp [OF e, of reset_io]
    by (simp add: sample_globals_def reset_io_def)
qed

section \<open>The primary temperature source\<close>




text \<open>
  The entry list of a group is stored under the name of its hardware item; a later item
  of the same name that has temperature sensors replaces it.
\<close>

lemma collect_hardware_same_name:
  "collect_hardware
     [cpu_item, \<lparr>Update_raises = None, HardwareName = ''CPU'', Sensors = [Inr null_sensor]\<rparr>] []
     = Inr [(''CPU'', [\<lparr>label = ''Core 2'', current = NaN\<rparr>])]"
  by (simp add: cpu_item_def null_sensor_def)

text \<open>
  C10. When an operation of the query raises, the function returns the empty dictionary
  with the error text, whatever had been collected before; and in every case a result
  that carries an error text carries no readings.
\<close>

theorem get_temperatures_lhm_all_or_nothing:
  "(libre_hw_monitor_available g \<and> lhm_try_body c = Inl e \<longrightarrow>
      get_temperatures_lhm g c
        = ([], Some (''Error during LibreHardwareMonitor operation: '' @ e)))
   \<and> (snd (get_temperatures_lhm g c) \<noteq> None \<longrightarrow> fst (get_temperatures_lhm g c) = [])"
  by (simp add: get_temperatures_lhm_def split: sum.splits)

theorem get_temperatures_lhm_all_or_nothing_witness:
  "libre_hw_monitor_available sample_globals
   \<and> collect_hardware [cpu_item] []
       = Inr [(''CPU'', [\<lparr>label = ''Core 1'', current = Fin (91 / 2)\<rparr>,
                         \<lparr>label = ''Core 2'', current = NaN\<rparr>])]
   \<and> lhm_try_body failing_computer = Inl ''device lost''
   \<and> get_temperatures_lhm sample_globals failing_computer
       = ([], Some ''Error during LibreHardwareMonitor operation: device lost'')"
proof -
  have av: "libre_hw_monitor_available sample_globals"
    by (simp add: sample_globals_def)
  have part: "collect_hardware [cpu_item] []
       = Inr [(''CPU'', [\<lparr>label = ''Core 1'', current = Fin (91 / 2)\<rparr>,
                         \<lparr>label = ''Core 2'', current = NaN\<rparr>])]"
    by (simp add: cpu_item_def null_sensor_def)
  have raised: "lhm_try_body failing_computer = Inl ''device lost''"
    by (simp add: lhm_try_body_def failing_computer_def cpu_item_def null_sensor_def)
  from get_temperatures_lhm_all_or_nothing [of sample_globals failing_computer "''device lost''"]
    av raised
  have "get_temperatures_lhm sample_globals failing_computer
       = ([], Some (''Error during LibreHardwareMonitor operation: '' @ ''device lost''))"
    by blast
  with av part raised show ?thesis by simp
qed

section \<open>The queries of a cycle\<close>

lemma queries_simps [simp]:
  "queries [] = []"
  "queries (Print s # evs) = queries evs"
  "queries (xs @ ys) = queries xs @ queries ys"
  by (simp_all add: queries_def)

lemma queries_Cons_query [simp]: "\<not> is_print e \<Longrightarrow> queries (e # evs) = e # queries evs"
  by (simp add: queries_def)

lemma queries_map_Print [simp]: "queries (map (\<lambda>x. Print (f x)) xs) = []"
  by (induction xs) simp_all

lemma mem_queries: "\<not> is_print e \<Longrightarrow> (e \<in> set evs) = (e \<in> set (queries evs))"
  by (simp add: queries_def)

lemma queries_header: "queries (header_section now) = []"
  by (simp add: header_section_def)

lemma queries_cpu:
  "queries (cpu_section pc a) = Psutil_cpu_percent # (if pc = [] then [Psutil_cpu_percent] else [])"
  by (simp add: cpu_section_def case_prod_unfold)

lemma queries_memory: "queries (memory_section m s) = [Psutil_virtual_memory, Psutil_swap_memory]"
  by (simp add: memory_section_def)

lemma queries_disk_report: "queries (disk_report p oc) = []"
  by (simp add: disk_report_def split: disk_outcome.splits)

lemma queries_disk_loop: "queries (disk_loop du ps) = map Psutil_disk_usage ps"
  by (induction ps) (simp_all add: queries_disk_report)

lemma queries_disk: "queries (disk_section du ps) = map Psutil_disk_usage ps"
  by (simp add: disk_section_def queries_disk_loop)

lemma queries_network: "queries (fst (network_section io t g)) = [Psutil_net_io_counters]"
  by (simp add: network_section_def case_prod_beta)

lemma queries_render_lhm: "queries (fst (render_lhm_groups ts b)) = []"
  by (induction ts b rule: render_lhm_groups.induct) (simp_all add: Let_def case_prod_beta)

lemma queries_render_psutil_entries: "queries (fst (render_psutil_entries es b)) = []"
  by (induction es b rule: render_psutil_entries.induct) (simp_all add: case_prod_beta)

lemma queries_render_psutil_groups: "queries (fst (render_psutil_groups ts b)) = []"
  by (induction ts arbitrary: b) (auto simp add: case_prod_beta queries_render_psutil_entries)

lemma queries_lhm_section:
  "queries (fst (lhm_section g c))
     = (if libre_hw_monitor_available g then [Call_get_temperatures_lhm] else [])"
  by (simp add: lhm_section_def case_prod_beta Let_def queries_render_lhm)

lemma queries_psutil_section:
  "queries (psutil_section os oc) = [Psutil_sensors_temperatures]"
  by (simp add: psutil_section_def case_prod_beta queries_render_psutil_groups
      split: sensors_outcome.splits)

lemma queries_temperature_section:
  "queries (temperature_section g os c oc) =
     (if libre_hw_monitor_available g then [Call_get_temperatures_lhm] else [])
     @ (if snd (lhm_section g c) then [] else [Psutil_sensors_temperatures])"
  by (simp add: temperature_section_def case_prod_beta queries_lhm_section queries_psutil_section)

lemma network_section_globals:
  "libre_hw_monitor_available (snd (network_section io t g)) = libre_hw_monitor_available g"
  "libre_hw_monitor_error (snd (network_section io t g)) = libre_hw_monitor_error g"
  "DISKS_TO_MONITOR (snd (network_section io t g)) = DISKS_TO_MONITOR g"
  by (simp_all add: network_section_def get_network_speed_def Let_def case_prod_beta)

lemma lhm_section_cong:
  "libre_hw_monitor_available g' = libre_hw_monitor_available g \<Longrightarrow>
   libre_hw_monitor_error g' = libre_hw_monitor_error g \<Longrightarrow> lhm_section g' c = lhm_section g c"
  by (simp add: lhm_section_def get_temperatures_lhm_def)

lemma lhm_section_after_network:
  "lhm_section (snd (network_section io t g)) c = lhm_section g c"
  by (rule lhm_section_cong) (simp_all add: network_section_globals)

text \<open>The platform queries of one cycle, in the order the cycle makes them.\<close>

lemma queries_display_system_stats:
  "queries (fst (display_system_stats env g)) =
     Psutil_cpu_percent # (if cpu_percent_percpu env = [] then [Psutil_cpu_percent] else [])
     @ [Psutil_virtual_memory, Psutil_swap_memory]
     @ map Psutil_disk_usage (DISKS_TO_MONITOR g)
     @ [Psutil_net_io_counters]
     @ (if libre_hw_monitor_available g then [Call_get_temperatures_lhm] else [])
     @ (if snd (lhm_section g (lhm_computer env)) then [] else [Psutil_sensors_temperatures])"
  by (simp add: display_system_stats_def case_prod_beta queries_header queries_cpu queries_memory
      queries_disk queries_network queries_temperature_section network_section_globals
      lhm_section_after_network)

lemma display_system_stats_globals:
  "libre_hw_monitor_available (snd (display_system_stats env g)) = libre_hw_monitor_available g"
  "libre_hw_monitor_error (snd (display_system_stats env g)) = libre_hw_monitor_error g"
  "DISKS_TO_MONITOR (snd (display_system_stats env g)) = DISKS_TO_MONITOR g"
  by (simp_all add: display_system_stats_def case_prod_beta network_section_globals)

section \<open>Disk errors stay with their path\<close>

lemma disk_loop_contains_report:
  "p \<in> set ps \<Longrightarrow> set (disk_report p (du p)) \<subseteq> set (disk_loop du ps)"
  by (induction ps) auto

lemma display_contains_disk_report:
  assumes "p \<in> set (DISKS_TO_MONITOR g)"
  shows "set (disk_report p (disk_usage env p)) \<subseteq> set (fst (display_system_stats env g))"
  using disk_loop_contains_report [OF assms, of "disk_usage env"]
  by (auto simp add: display_system_stats_def case_prod_beta disk_section_def)

lemma filter_disk_query_queries:
  "filter is_disk_query evs = filter is_disk_query (queries evs)"
proof -
  have "is_disk_query e \<Longrightarrow> \<not> is_print e" for e
    by (cases e) simp_all
  then show ?thesis
    unfolding queries_def filter_filter by (metis (mono_tags, lifting) filter_cong)
qed

lemma filter_disk_query_map [simp]:
  "filter is_disk_query (map Psutil_disk_usage ps) = map Psutil_disk_usage ps"
  by (induction ps) simp_all

lemma display_disk_queries:
  "filter is_disk_query (fst (display_system_stats env g))
     = map Psutil_disk_usage (DISKS_TO_MONITOR g)"
  by (subst filter_disk_query_queries) (simp add: queries_display_system_stats)

lemma display_runs_later_sections:
  "Psutil_net_io_counters \<in> set (fst (display_system_stats env g))
   \<and> Print ''--- System Temperatures ---'' \<in> set (fst (display_system_stats env g))"
  by (simp add: display_system_stats_def case_prod_beta network_section_def
      temperature_section_def)

text \<open>
  C8. For every configured path the cycle makes the disk query and prints that path's
  lines: the inline error line when the query raises, the report when it succeeds,
  whatever the other paths do. The disk queries of the cycle are exactly the configured
  paths, in order, and the cycle goes on to the network and temperature sections.
\<close>

theorem disk_errors_stay_with_their_path:
  assumes "disk_path \<in> set (DISKS_TO_MONITOR g)"
  shows "let out = fst (display_system_stats env g) in
     (disk_usage env disk_path = Disk_FileNotFoundError \<longrightarrow>
        Print (''  Disk ('' @ disk_path @ ''): Not found or inaccessible.'') \<in> set out)
     \<and> (\<forall>e. disk_usage env disk_path = Disk_Exception e \<longrightarrow>
        Print (''  Disk ('' @ disk_path @ ''): Error - '' @ e) \<in> set out)
     \<and> (\<forall>disk. disk_usage env disk_path = Disk_ok disk \<longrightarrow>
        Print (''  Disk ('' @ disk_path @ ''):'') \<in> set out
        \<and> Print (''    Total:     '' @ size_B (total disk)) \<in> set out
        \<and> Print (''    Used:      '' @ size_B (used disk)
                  @ '' ('' @ format_f 1 (percent disk) @ ''%)'') \<in> set out
        \<and> Print (''    Free:      '' @ size_B (free disk)) \<in> set out)
     \<and> filter is_disk_query out = map Psutil_disk_usage (DISKS_TO_MONITOR g)
     \<and> Psutil_net_io_counters \<in> set out
     \<and> Print ''--- System Temperatures ---'' \<in> set out"
  using display_contains_disk_report [OF assms, of env]
    display_disk_queries [of env g] display_runs_later_sections [of env g]
  by (auto simp add: Let_def disk_report_def)

theorem disk_errors_stay_with_their_path_witness:
  "''/mnt/data'' \<in> set (DISKS_TO_MONITOR sample_globals)
   \<and> disk_usage sample_env ''/mnt/data'' = Disk_FileNotFoundError
   \<and> Print ''  Disk (/mnt/data): Not found or inaccessible.''
       \<in> set (fst (display_system_stats sample_env sample_globals))
   \<and> ''/backup'' \<in> set (DISKS_TO_MONITOR sample_globals)
   \<and> disk_usage sample_env ''/backup'' = Disk_Exception ''[Errno 13] Permission denied''
   \<and> Print ''  Disk (/backup): Error - [Errno 13] Permission denied''
       \<in> set (fst (display_system_stats sample_env sample_globals))
   \<and> ''/'' \<in> set (DISKS_TO_MONITOR sample_globals)
   \<and> disk_usage sample_env ''/'' = Disk_ok sample_usage
   \<and> Print ''  Disk (/):'' \<in> set (fst (display_system_stats sample_env sample_globals))
   \<and> Print (''    Total:     '' @ size_B (total sample_usage))
       \<in> set (fst (display_system_stats sample_env sample_globals))
   \<and> filter is_disk_query (fst (display_system_stats sample_env sample_globals))
       = [Psutil_disk_usage ''/'', Psutil_disk_usage ''/mnt/data'', Psutil_disk_usage ''/backup'']"
proof -
  have m1: "''/mnt/data'' \<in> set (DISKS_TO_MONITOR sample_globals)"
    and m2: "''/'' \<in> set (DISKS_TO_MONITOR sample_globals)"
    and m3: "''/backup'' \<in> set (DISKS_TO_MONITOR sample_globals)"
    and ds: "DISKS_TO_MONITOR sample_globals = [''/'', ''/mnt/data'', ''/backup'']"
    by (simp_all add: sample_globals_def)
  have o1: "disk_usage sample_env ''/mnt/data'' = Disk_FileNotFoundError"
    and o2: "disk_usage sample_env ''/'' = Disk_ok sample_usage"
    and o3: "disk_usage sample_env ''/backup'' = Disk_Exception ''[Errno 13] Permission denied''"
    by (simp_all add: sample_env_def)
  from disk_errors_stay_with_their_path [OF m1, of sample_env] o1
  have a: "Print ''  Disk (/mnt/data): Not found or inaccessible.''
       \<in> set (fst (display_system_stats sample_env sample_globals))"
    by (simp add: Let_def)
  from disk_errors_stay_with_their_path [OF m3, of sample_env] o3
  have c: "Print ''  Disk (/backup): Error - [Errno 13] Permission denied''
       \<in> set (fst (display_system_stats sample_env sample_globals))"
    by (simp add: Let_def)
  from disk_errors_stay_with_their_path [OF m2, of sample_env] o2 ds
  have b: "Print ''  Disk (/):'' \<in> set (fst (display_system_stats sample_env sample_globals))
     \<and> Print (''    Total:     '' @ size_B (total sample_usage))
       \<in> set (fst (display_system_stats sample_env sample_globals))
     \<and> filter is_disk_query (fst (display_system_stats sample_env sample_globals))
       = [Psutil_disk_usage ''/'', Psutil_disk_usage ''/mnt/data'', Psutil_disk_usage ''/backup'']"
    by (simp add: Let_def)
  from m1 m2 m3 o1 o2 o3 a b c show ?thesis by blast
qed

section \<open>Primary source and fallback exclude each other\<close>

lemma valid_entry_iff: "valid_entry e = (\<not> isnan (current e))"
  by (simp add: valid_entry_def isinstance_float_def)

lemma render_lhm_groups_flag:
  "snd (render_lhm_groups ts b)
     = (b \<or> (\<exists>(grp, es) \<in> set ts. \<exists>e \<in> set es. valid_entry e))"
  by (induction ts b rule: render_lhm_groups.induct)
     (auto simp add: Let_def case_prod_beta filter_empty_conv)

lemma no_render_in_entry_lines:
  "\<not> list_ex is_lhm_render
       (map (\<lambda>entry. Print (''    '' @ label entry @ '': ''
                              @ format_float 1 (current entry) @ degC)) es)"
  by (induction es) simp_all

lemma render_lhm_groups_shown:
  "list_ex is_lhm_render (fst (render_lhm_groups ts b))
     = (\<exists>(grp, es) \<in> set ts. \<exists>e \<in> set es. valid_entry e)"
  by (induction ts b rule: render_lhm_groups.induct)
     (auto simp add: Let_def case_prod_beta filter_empty_conv no_render_in_entry_lines)

lemma lhm_section_reported:
  "snd (lhm_section g c)
     = (\<exists>(grp, es) \<in> set (fst (get_temperatures_lhm g c)). \<exists>e \<in> set es. valid_entry e)"
  by (auto simp add: lhm_section_def get_temperatures_lhm_def truthy_str_def Let_def
      case_prod_beta render_lhm_groups_flag list_ex_iff split: sum.splits)

lemma lhm_section_shown:
  "list_ex is_lhm_render (fst (lhm_section g c)) = snd (lhm_section g c)"
  by (auto simp add: lhm_section_def get_temperatures_lhm_def truthy_str_def Let_def
      case_prod_beta render_lhm_groups_flag render_lhm_groups_shown split: sum.splits)

lemma no_render_psutil_entries:
  "\<not> list_ex is_lhm_render (fst (render_psutil_entries es b))"
  by (induction es b rule: render_psutil_entries.induct) (simp_all add: case_prod_beta)

lemma no_render_psutil_groups:
  "\<not> list_ex is_lhm_render (fst (render_psutil_groups ts b))"
  by (induction ts arbitrary: b)
     (auto simp add: case_prod_beta no_render_psutil_entries split: if_splits)

lemma no_render_psutil_section: "\<not> list_ex is_lhm_render (psutil_section os oc)"
  by (simp add: psutil_section_def case_prod_beta no_render_psutil_groups
      split: sensors_outcome.splits)

lemma temperature_section_shown:
  "list_ex is_lhm_render (temperature_section g os c oc) = snd (lhm_section g c)"
  by (simp add: temperature_section_def case_prod_beta lhm_section_shown
      no_render_psutil_section)

lemma no_render_cpu: "\<not> list_ex is_lhm_render (cpu_section pc a)"
  by (auto simp add: cpu_section_def list_ex_iff)

lemma no_render_disk_loop: "\<not> list_ex is_lhm_render (disk_loop du ps)"
  by (induction ps) (simp_all add: disk_report_def split: disk_outcome.splits)

lemma no_render_before_temperatures:
  "\<not> list_ex is_lhm_render (header_section now)"
  "\<not> list_ex is_lhm_render (memory_section m s)"
  "\<not> list_ex is_lhm_render (disk_section du ps)"
  "\<not> list_ex is_lhm_render (fst (network_section io t g))"
  by (simp_all add: header_section_def memory_section_def disk_section_def no_render_disk_loop
      network_section_def case_prod_beta)

lemma display_shown:
  "list_ex is_lhm_render (fst (display_system_stats env g))
     = snd (lhm_section g (lhm_computer env))"
  by (simp add: display_system_stats_def case_prod_beta no_render_before_temperatures
      no_render_cpu temperature_section_shown lhm_section_after_network)

lemma display_fallback:
  "(Psutil_sensors_temperatures \<in> set (fst (display_system_stats env g)))
     = (\<not> snd (lhm_section g (lhm_computer env)))"
  by (subst mem_queries) (auto simp add: queries_display_system_stats)

text \<open>
  C2. In every cycle: if what the primary source returns holds a reading that is not NaN,
  the fallback query is not made; if all the readings it returns are NaN (or it returns
  none), the fallback query is made; and a group is rendered from the primary source
  exactly when the fallback query is not made, so the two never happen in one cycle.
\<close>

theorem temperature_fallback_exclusive:
  "let out = fst (display_system_stats env g);
       lhm_temps = fst (get_temperatures_lhm g (lhm_computer env))
   in ((\<exists>(grp, es) \<in> set lhm_temps. \<exists>e \<in> set es. \<not> isnan (current e)) \<longrightarrow>
          Psutil_sensors_temperatures \<notin> set out)
      \<and> ((\<forall>(grp, es) \<in> set lhm_temps. \<forall>e \<in> set es. isnan (current e)) \<longrightarrow>
          Psutil_sensors_temperatures \<in> set out)
      \<and> (list_ex is_lhm_render out = (Psutil_sensors_temperatures \<notin> set out))"
  unfolding Let_def display_fallback display_shown lhm_section_reported valid_entry_iff
  by auto

theorem temperature_fallback_exclusive_witness:
  "fst (get_temperatures_lhm sample_globals (lhm_computer sample_env))
       = [(''CPU'', [\<lparr>label = ''Core 1'', current = Fin (91 / 2)\<rparr>,
                     \<lparr>label = ''Core 2'', current = NaN\<rparr>])]
   \<and> \<not> isnan (Fin (91 / 2))
   \<and> Psutil_sensors_temperatures \<notin> set (fst (display_system_stats sample_env sample_globals))
   \<and> list_ex is_lhm_render (fst (display_system_stats sample_env sample_globals))
   \<and> fst (get_temperatures_lhm sample_globals (lhm_computer nan_env))
       = [(''GPU'', [\<lparr>label = ''Core 2'', current = NaN\<rparr>])]
   \<and> Psutil_sensors_temperatures \<in> set (fst (display_system_stats nan_env sample_globals))
   \<and> \<not> list_ex is_lhm_render (fst (display_system_stats nan_env sample_globals))"
proof -
  have t1: "fst (get_temperatures_lhm sample_globals (lhm_computer sample_env))
      = [(''CPU'', [\<lparr>label = ''Core 1'', current = Fin (91 / 2)\<rparr>,
                    \<lparr>label = ''Core 2'', current = NaN\<rparr>])]"
    by (simp add: get_temperatures_lhm_def lhm_try_body_def sample_globals_def sample_env_def
        cpu_item_def null_sensor_def)
  have t2: "fst (get_temperatures_lhm sample_globals (lhm_computer nan_env))
      = [(''GPU'', [\<lparr>label = ''Core 2'', current = NaN\<rparr>])]"
    by (simp add: get_temperatures_lhm_def lhm_try_body_def sample_globals_def sample_env_def
        nan_env_def nan_computer_def null_sensor_def)
  have p1: "\<exists>(grp, es) \<in> set (fst (get_temperatures_lhm sample_globals (lhm_computer sample_env))).
      \<exists>e \<in> set es. \<not> isnan (current e)"
    by (simp add: t1)
  have p2: "\<forall>(grp, es) \<in> set (fst (get_temperatures_lhm sample_globals (lhm_computer nan_env))).
      \<forall>e \<in> set es. isnan (current e)"
    by (simp add: t2)
  from temperature_fallback_exclusive [of sample_env sample_globals] p1
  have a: "Psutil_sensors_temperatures \<notin> set (fst (display_system_stats sample_env sample_globals))
     \<and> list_ex is_lhm_render (fst (display_system_stats sample_env sample_globals))"
    unfolding Let_def by blast
  from temperature_fallback_exclusive [of nan_env sample_globals] p2
  have b: "Psutil_sensors_temperatures \<in> set (fst (display_system_stats nan_env sample_globals))
     \<and> \<not> list_ex is_lhm_render (fst (display_system_stats nan_env sample_globals))"
    unfolding Let_def by blast
  from t1 t2 a b show ?thesis by simp
qed

section \<open>The availability flag\<close>

lemma main_loop_flag:
  "libre_hw_monitor_available (snd (main_loop envs g)) = libre_hw_monitor_available g"
  by (induction envs arbitrary: g) (simp_all add: case_prod_beta display_system_stats_globals)

lemma lhm_section_unavailable:
  "\<not> libre_hw_monitor_available g \<Longrightarrow> \<not> snd (lhm_section g c)"
  by (simp add: lhm_section_def)

lemma display_unavailable:
  assumes "\<not> libre_hw_monitor_available g"
  shows "Call_get_temperatures_lhm \<notin> set (fst (display_system_stats env g))
     \<and> Psutil_sensors_temperatures \<in> set (fst (display_system_stats env g))"
proof -
  have "Call_get_temperatures_lhm \<notin> set (queries (fst (display_system_stats env g)))"
    using assms by (auto simp add: queries_display_system_stats)
  moreover have "Psutil_sensors_temperatures \<in> set (queries (fst (display_system_stats env g)))"
    using assms lhm_section_unavailable [OF assms]
    by (simp add: queries_display_system_stats)
  ultimately show ?thesis
    by (simp add: mem_queries [symmetric])
qed

lemma main_loop_unavailable:
  "\<not> libre_hw_monitor_available g \<Longrightarrow> trace \<in> set (fst (main_loop envs g)) \<Longrightarrow>
     Call_get_temperatures_lhm \<notin> set trace \<and> Psutil_sensors_temperatures \<in> set trace"
proof (induction envs arbitrary: g)
  case Nil
  then show ?case by simp
next
  case (Cons env envs)
  let ?g' = "snd (display_system_stats env g)"
  have flag: "\<not> libre_hw_monitor_available ?g'"
    using Cons.prems(1) by (simp add: display_system_stats_globals)
  from Cons.prems(2) consider
      (first) "trace = Clear_screen # fst (display_system_stats env g)
          @ [Print ([CHR 0x0A] @ ''Updating in '' @ dec UPDATE_INTERVAL @ '' seconds...''), Sleep]"
    | (later) "trace \<in> set (fst (main_loop envs ?g'))"
    by (auto simp add: case_prod_beta)
  then show ?case
  proof cases
    case first
    with display_unavailable [OF Cons.prems(1), of env] show ?thesis by simp
  next
    case later
    from Cons.IH [OF flag later] show ?thesis .
  qed
qed

text \<open>
  C7. The availability flag is bound by the import attempt at module level and no later
  step assigns it: the calibrating call and every cycle of the main loop leave it as it
  was. When the import failed, no cycle calls the primary source and every cycle makes
  the fallback query.
\<close>

theorem availability_flag_fixed_at_startup:
  "libre_hw_monitor_available (module_init import_exc os io t) = (import_exc = None)
   \<and> libre_hw_monitor_available (main_prologue io' t' g) = libre_hw_monitor_available g
   \<and> libre_hw_monitor_available (snd (main_loop envs g)) = libre_hw_monitor_available g
   \<and> (\<not> libre_hw_monitor_available g \<longrightarrow>
        (\<forall>trace \<in> set (fst (main_loop envs g)).
           Call_get_temperatures_lhm \<notin> set trace \<and> Psutil_sensors_temperatures \<in> set trace))"
  using main_loop_unavailable [of g _ envs]
  by (auto simp add: module_init_def main_prologue_def get_network_speed_def Let_def
      main_loop_flag)

theorem availability_flag_fixed_at_startup_witness:
  "\<not> libre_hw_monitor_available bare_globals
   \<and> \<not> libre_hw_monitor_available (snd (main_loop [sample_env, nan_env] bare_globals))
   \<and> length (fst (main_loop [sample_env, nan_env] bare_globals)) = 2
   \<and> Call_get_temperatures_lhm \<notin> set (fst (main_loop [sample_env, nan_env] bare_globals) ! 1)
   \<and> Psutil_sensors_temperatures \<in> set (fst (main_loop [sample_env, nan_env] bare_globals) ! 1)"
proof -
  note th = availability_flag_fixed_at_startup
    [of "Some ''No module named clr''" "''posix''" sample_io 0 sample_io 0 bare_globals
        "[sample_env, nan_env]"]
  have off: "\<not> libre_hw_monitor_available bare_globals"
    using th unfolding bare_globals_def by simp
  have len: "length (fst (main_loop [sample_env, nan_env] bare_globals)) = 2"
    by (simp add: case_prod_beta)
  then have mem: "fst (main_loop [sample_env, nan_env] bare_globals) ! 1
      \<in> set (fst (main_loop [sample_env, nan_env] bare_globals))"
    by (intro nth_mem) simp
  from th off have still: "\<not> libre_hw_monitor_available (snd (main_loop [sample_env, nan_env] bare_globals))"
    by blast
  from th off mem have "Call_get_temperatures_lhm \<notin> set (fst (main_loop [sample_env, nan_env] bare_globals) ! 1)
     \<and> Psutil_sensors_temperatures \<in> set (fst (main_loop [sample_env, nan_env] bare_globals) ! 1)"
    by blast
  with off still len show ?thesis by blast
qed

end
